theory Spec2Isabelle
  imports Complex_Main
begin

section \<open>Long-range shot trainer: ballistic solver, scoring and session state\<close>

text \<open>
  The program is TypeScript. Its \<open>number\<close> values are modelled as \<^typ>\<open>real\<close>, counters
  that only ever hold whole numbers (rings, mastery, level index) as \<^typ>\<open>int\<close> or
  \<^typ>\<open>nat\<close>. The model is the exact-arithmetic reading of the code: the rounding of IEEE
  doubles is not represented, and inputs on which the JavaScript would produce
  \<open>NaN\<close> or \<open>Infinity\<close> (a negative base of \<open>Math.pow(_, 1.8)\<close>, a division by a zero
  distance) are outside the model; theorems that depend on such a subterm carry the
  hypothesis \<open>0 < distance\<close>.
\<close>

subsection \<open>Data model (types.ts)\<close>

datatype Language = en | zh

record Environment =
  windSpeed :: real
  windDirection :: real
  temperature :: real
  humidity :: real
  distance :: real

record TurretState =
  elevation :: real
  windage :: real

record ShotResult =
  hit :: bool
  score :: int
  rings :: int
  dropError :: real
  windError :: real
  timestamp :: real

text \<open>The fields \<open>x\<close> and \<open>y\<close> of the source's \<open>Point\<close> are named \<open>xCm\<close> and \<open>yCm\<close>.\<close>

record Point =
  xCm :: real
  yCm :: real

datatype GameStatus = MENU | BRIEFING | AIMING | RESULT

datatype GameMode = TRAINING | CAMPAIGN

text \<open>
  A level's \<open>id\<close> is named \<open>levelId\<close>; its \<open>texts\<close> are presentation only and left out.
  The three optional constraint fields are options.
\<close>

record Constraints =
  minDist :: real
  maxDist :: real
  minWind :: real
  maxWind :: real
  fixedWindDir :: "real option"
  fixedTemp :: "real option"
  disableSway :: "bool option"

record LevelConfig =
  levelId :: string
  constraints :: Constraints

subsection \<open>Constants (constants.ts)\<close>

definition MUZZLE_VELOCITY :: real where
  "MUZZLE_VELOCITY = 850"

definition STANDARD_TEMP :: real where
  "STANDARD_TEMP = 15"

definition TARGET_SIZE_CM :: real where
  "TARGET_SIZE_CM = 45"

definition mkLevel :: "string \<Rightarrow> real \<Rightarrow> real \<Rightarrow> real \<Rightarrow> real \<Rightarrow> real option \<Rightarrow> real
    \<Rightarrow> bool \<Rightarrow> LevelConfig" where
  "mkLevel i dmin dmax wmin wmax wdir temp sway =
     \<lparr>levelId = i,
      constraints = \<lparr>minDist = dmin, maxDist = dmax, minWind = wmin, maxWind = wmax,
        fixedWindDir = wdir, fixedTemp = Some temp, disableSway = Some sway\<rparr>\<rparr>"

definition TRAINING_LEVELS :: "LevelConfig list" where
  "TRAINING_LEVELS =
     [mkLevel ''t1'' 300 300 0 0 None 15 True,
      mkLevel ''t2'' 400 400 5 5 (Some 90) 15 True,
      mkLevel ''t3'' 300 300 0 0 None 15 False,
      mkLevel ''t4'' 600 600 0 0 None 35 False,
      mkLevel ''t5'' 500 500 2 4 None 15 False]"

definition CAMPAIGN_LEVELS :: "LevelConfig list" where
  "CAMPAIGN_LEVELS =
     [mkLevel ''c1'' 300 300 0 0 None 15 False,
      mkLevel ''c2'' 500 500 1 3 None 15 False,
      mkLevel ''c3'' 300 600 0 2 None 15 False,
      mkLevel ''c4'' 500 800 3 6 None 35 False,
      mkLevel ''c5'' 800 1100 5 12 None (-5) False]"

subsection \<open>Number helpers of the JavaScript runtime\<close>

text \<open>
  \<open>x.toFixed(f)\<close>: below \<open>10^21\<close> in magnitude the sign is split off and the digits are those
  of the integer \<open>n\<close> with \<open>n / 10^f\<close> nearest to \<open>|x|\<close>, the larger \<open>n\<close> on a tie; from
  \<open>10^21\<close> on, the result is the number's own string. The model returns the number that
  the string denotes, which is also what \<open>parseFloat\<close> reads back from it.
\<close>

definition toFixed :: "nat \<Rightarrow> real \<Rightarrow> real" where
  "toFixed f v =
     (if \<bar>v\<bar> \<ge> 10 ^ 21 then v
      else sgn v * (of_int \<lfloor>\<bar>v\<bar> * 10 ^ f + 1 / 2\<rfloor> / 10 ^ f))"

definition Math_floor :: "real \<Rightarrow> real" where
  "Math_floor v = of_int \<lfloor>v\<rfloor>"

subsection \<open>Ballistic solver (services/ballistics: calculateImpact)\<close>

definition calculateImpact :: "Environment \<Rightarrow> TurretState \<Rightarrow> Point" where
  "calculateImpact e tu =
     (let dist = distance e;
          timeOfFlight = dist / (MUZZLE_VELOCITY * 0.92);
          gravityDropMeters = 0.5 * 9.81 * timeOfFlight ^ 2;
          gravityDropCm = gravityDropMeters * 100;
          tempDiff = temperature e - STANDARD_TEMP;
          densityFactor = 1 - (tempDiff * 0.002);
          actualDropCm = gravityDropCm * densityFactor;
          windRad = (windDirection e - 90) * (pi / 180);
          crossWindComponent = windSpeed e * cos windRad;
          headWindComponent = windSpeed e * sin windRad;
          driftFactor = (dist / 100) powr 1.8;
          windDriftCm = crossWindComponent * driftFactor * 0.15;
          milValueAtDistCm = 10 * (dist / 100);
          elevationCorrectionCm = elevation tu * milValueAtDistCm;
          windageCorrectionCm = windage tu * milValueAtDistCm;
          verticalImpactCm = - actualDropCm + elevationCorrectionCm;
          horizontalImpactCm = - windDriftCm + windageCorrectionCm
      in \<lparr>xCm = horizontalImpactCm, yCm = verticalImpactCm\<rparr>)"

subsection \<open>Range card (services/ballistics: generateRangeCard)\<close>

text \<open>An entry's fields \<open>distance\<close> and \<open>elevation\<close> are named \<open>rcDistance\<close>, \<open>rcElevation\<close>.\<close>

record RangeCardEntry =
  rcDistance :: real
  rcElevation :: real

definition generateRangeCard :: "real \<Rightarrow> RangeCardEntry list" where
  "generateRangeCard temp =
     (let distances = [200, 300, 400, 500, 600, 700, 800, 900, 1000, 1100, 1200]
      in map (\<lambda>d.
           let t = d / (MUZZLE_VELOCITY * 0.92);
               dropM = 0.5 * 9.81 * t ^ 2;
               tempDiff = temp - STANDARD_TEMP;
               densityFactor = 1 - (tempDiff * 0.002);
               actualDropM = dropM * densityFactor;
               mils = (actualDropM * 100) / (d / 10)
           in \<lparr>rcDistance = d, rcElevation = toFixed 1 mils\<rparr>) distances)"

subsection \<open>Level environments (services/ballistics: generateLevelEnvironment)\<close>

text \<open>
  Each call of \<open>Math.random()\<close> is a parameter: the five draws, in the order of the
  source, each in \<open>[0, 1)\<close>. The locals that share a name with a field of the
  environment are shortened (\<open>dist\<close>, \<open>wSpeed\<close>, \<open>wDirection\<close>, \<open>temp\<close>).
\<close>

record RandomDraws =
  rDistance :: real
  rWindSpeed :: real
  rWindDirection :: real
  rTemperature :: real
  rHumidity :: real

definition generateLevelEnvironment :: "LevelConfig \<Rightarrow> RandomDraws \<Rightarrow> Environment" where
  "generateLevelEnvironment config r =
     (let c = constraints config;
          dist = Math_floor (rDistance r * (maxDist c - minDist c + 1) + minDist c);
          wSpeed = toFixed 1 (rWindSpeed r * (maxWind c - minWind c) + minWind c);
          wDirection = (case fixedWindDir c of Some d \<Rightarrow> d
                        | None \<Rightarrow> Math_floor (rWindDirection r * 360));
          temp = (case fixedTemp c of Some t \<Rightarrow> t
                  | None \<Rightarrow> Math_floor (rTemperature r * 35))
      in \<lparr>windSpeed = wSpeed, windDirection = wDirection, temperature = temp,
          humidity = Math_floor (rHumidity r * 60 + 20), distance = dist\<rparr>)"

subsection \<open>Session state and its handlers (App.tsx)\<close>

text \<open>
  The component's state hooks form one record; a handler is a function from the state of
  the render it was created in to the state after its updates are applied. A sequence of
  events is the composition of their handlers: the component renders between two events.
\<close>

record Session =
  status :: GameStatus
  gameMode :: "GameMode option"
  currentLevelIndex :: nat
  env :: Environment
  turrets :: TurretState
  zoomIndex :: nat
  isHoldingBreath :: bool
  lastShot :: "ShotResult option"
  language :: Language
  masteryScore :: int

definition initialSession :: Session where
  "initialSession =
     \<lparr>status = MENU, gameMode = None, currentLevelIndex = 0,
      env = \<lparr>windSpeed = 0, windDirection = 0, temperature = 15, humidity = 50,
        distance = 100\<rparr>,
      turrets = \<lparr>elevation = 0, windage = 0\<rparr>,
      zoomIndex = 1, isHoldingBreath = False, lastShot = None, language = en,
      masteryScore = 0\<rparr>"

definition levelsOf :: "GameMode option \<Rightarrow> LevelConfig list" where
  "levelsOf mode = (if mode = Some TRAINING then TRAINING_LEVELS else CAMPAIGN_LEVELS)"

text \<open>
  \<open>levels[levelIndex]\<close> is \<open>undefined\<close> out of range, and reading its \<open>constraints\<close> then
  throws a \<open>TypeError\<close>; the handler's result is the error then. The mode is an option
  because the callers pass \<open>gameMode!\<close>, which is \<open>null\<close> before a mode is chosen.
\<close>

datatype error = TypeError

definition startBriefing ::
    "GameMode option \<Rightarrow> nat \<Rightarrow> RandomDraws \<Rightarrow> Session \<Rightarrow> error + Session" where
  "startBriefing mode levelIndex r s =
     (let levels = levelsOf mode
      in if levelIndex < length levels
         then Inr (s\<lparr>gameMode := mode, currentLevelIndex := levelIndex,
                env := generateLevelEnvironment (levels ! levelIndex) r,
                turrets := \<lparr>elevation = 0, windage = 0\<rparr>,
                lastShot := None, status := BRIEFING\<rparr>)
         else Inl TypeError)"

definition startGame :: "Session \<Rightarrow> Session" where
  "startGame s = s\<lparr>status := AIMING\<rparr>"

text \<open>
  \<open>fireShot\<close> takes the value of \<open>Date.now()\<close> as a parameter. Its local \<open>rings\<close> is named
  \<open>ringCount\<close> here, and the mastery update is the local \<open>mastery\<close>.
\<close>

definition fireShot :: "real \<Rightarrow> Session \<Rightarrow> Session" where
  "fireShot now s =
     (if status s \<noteq> AIMING then s
      else
        let impact = calculateImpact (env s) (turrets s);
            errorMagnitude = sqrt (xCm impact * xCm impact + yCm impact * yCm impact);
            targetRadius = TARGET_SIZE_CM / 2;
            isHit = errorMagnitude < targetRadius;
            ringCount =
              (if isHit
               then (let ringWidth = targetRadius / 6;
                         rs = 10 - \<lfloor>errorMagnitude / ringWidth\<rfloor>
                     in if rs < 5 then 5 else rs)
               else 0);
            mastery =
              (if isHit
               then (if ringCount = 10 then masteryScore s + 2
                     else if ringCount \<ge> 7 then masteryScore s + 1
                     else max 0 (masteryScore s - 1))
               else 0);
            result = \<lparr>hit = isHit, score = (if isHit then ringCount * 10 else 0),
              rings = ringCount, dropError = yCm impact, windError = xCm impact,
              timestamp = now\<rparr>
        in s\<lparr>masteryScore := mastery, lastShot := Some result, status := RESULT\<rparr>)"

definition handleNextLevel :: "RandomDraws \<Rightarrow> Session \<Rightarrow> error + Session" where
  "handleNextLevel r s =
     (let levels = levelsOf (gameMode s)
      in if currentLevelIndex s + 1 < length levels
         then startBriefing (gameMode s) (currentLevelIndex s + 1) r s
         else Inr (s\<lparr>status := MENU\<rparr>))"

definition handlePrevLevel :: "RandomDraws \<Rightarrow> Session \<Rightarrow> error + Session" where
  "handlePrevLevel r s =
     (if currentLevelIndex s > 0
      then startBriefing (gameMode s) (currentLevelIndex s - 1) r s
      else Inr s)"

definition handleRetry :: "Session \<Rightarrow> Session" where
  "handleRetry s = s\<lparr>lastShot := None, status := AIMING\<rparr>"

definition returnToMenu :: "Session \<Rightarrow> Session" where
  "returnToMenu s = s\<lparr>status := MENU, gameMode := None, lastShot := None, masteryScore := 0\<rparr>"

text \<open>The turret dials of the control panel (ControlPanel: adjust).\<close>

datatype Turret = Elevation | Windage

definition adjust :: "Turret \<Rightarrow> real \<Rightarrow> Session \<Rightarrow> Session" where
  "adjust ty amount s =
     (case ty of
        Elevation \<Rightarrow>
          s\<lparr>turrets := (turrets s)\<lparr>elevation := toFixed 1 (elevation (turrets s) + amount)\<rparr>\<rparr>
      | Windage \<Rightarrow>
          s\<lparr>turrets := (turrets s)\<lparr>windage := toFixed 1 (windage (turrets s) + amount)\<rparr>\<rparr>)"

subsection \<open>Instructor feedback (services/ballistics: getInstructorFeedback)\<close>

text \<open>
  A feedback line is one of the source's string templates, in the chosen language, with
  the values it interpolates; the English and the Chinese template of a line interpolate
  the same values. A value printed through \<open>toFixed\<close> is carried as the number the digits
  denote. The words chosen for direction and action are an enumeration. The marker
  \<open>"---"\<close> is \<open>Divider\<close>.
\<close>

datatype Word = HIGH | LOW | DECREASE | INCREASE | RIGHT | LEFT

datatype Template =
    PerfectHit
  | HitRings int
  | MissLine
  | Formula real real
  | ElevationError real Word
  | EnvHot real
  | EnvCold real
  | Calc real real real
  | ElevationCorrection Word real
  | WindageError real Word
  | EnvWind real real
  | WindageCorrection Word real

datatype FeedbackLine = Text Language Template | Divider

definition getInstructorFeedback ::
    "ShotResult \<Rightarrow> Environment \<Rightarrow> Language \<Rightarrow> FeedbackLine list" where
  "getInstructorFeedback result e lang =
     (let cmPerMil = distance e / 10;
          vErr = dropError result;
          hErr = windError result;
          vCorrection = - (vErr / cmPerMil);
          hCorrection = - (hErr / cmPerMil);
          vCorrDisplay = toFixed 1 \<bar>vCorrection\<bar>;
          hCorrDisplay = toFixed 1 \<bar>hCorrection\<bar>
      in
        [Text lang (if rings result = 10 then PerfectHit
                    else if hit result then HitRings (rings result)
                    else MissLine)]
        @ [Text lang (Formula (distance e) cmPerMil)]
        @ (if \<bar>vCorrection\<bar> > 0.05
           then (let dirStr = (if vErr > 0 then HIGH else LOW);
                     adjAction = (if vErr > 0 then DECREASE else INCREASE);
                     errAbs = toFixed 0 \<bar>vErr\<bar>
                 in [Divider, Text lang (ElevationError errAbs dirStr)]
                    @ (if \<bar>vErr\<bar> > 15
                       then (let tempDiff = temperature e - 15
                             in if tempDiff > 10 \<and> vErr > 0
                                then [Text lang (EnvHot (temperature e))]
                                else if tempDiff < - 10 \<and> vErr < 0
                                then [Text lang (EnvCold (temperature e))]
                                else [])
                       else [])
                    @ [Text lang (Calc errAbs cmPerMil (toFixed 2 \<bar>vCorrection\<bar>))]
                    @ [Text lang (ElevationCorrection adjAction vCorrDisplay)])
           else [])
        @ (if \<bar>hCorrection\<bar> > 0.05
           then (let dirStr = (if hErr > 0 then RIGHT else LEFT);
                     adjAction = (if hErr > 0 then LEFT else RIGHT);
                     errAbs = toFixed 0 \<bar>hErr\<bar>
                 in [Divider, Text lang (WindageError errAbs dirStr)]
                    @ (if windSpeed e > 0
                       then [Text lang (EnvWind (windSpeed e) (windDirection e))]
                       else [])
                    @ [Text lang (Calc errAbs cmPerMil (toFixed 2 \<bar>hCorrection\<bar>))]
                    @ [Text lang (WindageCorrection adjAction hCorrDisplay)])
           else []))"

text \<open>Which lines are the environmental annotations, and which open a section.\<close>

fun isTempAnnotation :: "FeedbackLine \<Rightarrow> bool" where
  "isTempAnnotation (Text _ (EnvHot _)) = True"
| "isTempAnnotation (Text _ (EnvCold _)) = True"
| "isTempAnnotation _ = False"

fun isWindAnnotation :: "FeedbackLine \<Rightarrow> bool" where
  "isWindAnnotation (Text _ (EnvWind _ _)) = True"
| "isWindAnnotation _ = False"

fun isElevationSection :: "FeedbackLine \<Rightarrow> bool" where
  "isElevationSection (Text _ (ElevationError _ _)) = True"
| "isElevationSection _ = False"

fun isWindageSection :: "FeedbackLine \<Rightarrow> bool" where
  "isWindageSection (Text _ (WindageError _ _)) = True"
| "isWindageSection _ = False"

subsection \<open>The solver as the specification words it\<close>

text \<open>
  These definitions follow the specification's algorithm, not the source: time of flight,
  drop in cm with the density factor, crosswind from the wind bearing in degrees, the
  empirical drift curve, and the linear size of one MIL.
\<close>

definition cos_deg :: "real \<Rightarrow> real" where
  "cos_deg a = cos (a * pi / 180)"

definition spec_tof :: "Environment \<Rightarrow> real" where
  "spec_tof e = distance e / (850 * 0.92)"

definition spec_actualDrop :: "Environment \<Rightarrow> real" where
  "spec_actualDrop e =
     (100 * (1 / 2) * 9.81 * (spec_tof e)\<^sup>2) * (1 - (temperature e - 15) * 0.002)"

definition spec_crosswind :: "Environment \<Rightarrow> real" where
  "spec_crosswind e = windSpeed e * cos_deg (windDirection e - 90)"

definition spec_windDrift :: "Environment \<Rightarrow> real" where
  "spec_windDrift e = spec_crosswind e * (distance e / 100) powr 1.8 * 0.15"

definition spec_milCm :: "Environment \<Rightarrow> real" where
  "spec_milCm e = 10 * (distance e / 100)"

definition spec_impact :: "Environment \<Rightarrow> TurretState \<Rightarrow> Point" where
  "spec_impact e tu =
     \<lparr>xCm = - spec_windDrift e + windage tu * spec_milCm e,
      yCm = - spec_actualDrop e + elevation tu * spec_milCm e\<rparr>"

subsection \<open>The mastery policy as the specification words it\<close>

text \<open>
  Ten rings add 2; rings in \<open>[7, 10)\<close> add 1; a hit below 7 rings subtracts 1, floored at
  0; a miss resets to 0. The specification names no case for a hit above 10 rings; the
  counter is left as it is there.
\<close>

definition spec_masteryUpdate :: "bool \<Rightarrow> int \<Rightarrow> int \<Rightarrow> int" where
  "spec_masteryUpdate h rs m =
     (if \<not> h then 0
      else if rs = 10 then m + 2
      else if 7 \<le> rs \<and> rs < 10 then m + 1
      else if rs < 7 then max 0 (m - 1)
      else m)"

subsection \<open>Concrete sessions used as inputs\<close>

text \<open>
  First training level (300 m, no wind, 15 degrees), aiming, with the elevation dial on the
  range card's value for 300 m.
\<close>

definition zeroedSession :: Session where
  "zeroedSession =
     initialSession\<lparr>status := AIMING, gameMode := Some TRAINING,
       env := \<lparr>windSpeed = 0, windDirection = 0, temperature = 15, humidity = 50,
         distance = 300\<rparr>,
       turrets := \<lparr>elevation = 2.4, windage = 0\<rparr>\<rparr>"

text \<open>
  The same level with the dials set so that the impact lies exactly on the edge of the
  target: 22.5 cm to the right, on the horizontal line through the centre.
\<close>

definition boundarySession :: Session where
  "boundarySession =
     zeroedSession\<lparr>turrets := \<lparr>elevation = 367875 / 152881, windage = 0.75\<rparr>\<rparr>"

text \<open>
  The result screen of the last campaign level, and the random draws of a generator that
  always returns 0.
\<close>

definition lastCampaignResult :: Session where
  "lastCampaignResult =
     initialSession\<lparr>status := RESULT, gameMode := Some CAMPAIGN, currentLevelIndex := 4\<rparr>"

definition noDraws :: RandomDraws where
  "noDraws = \<lparr>rDistance = 0, rWindSpeed = 0, rWindDirection = 0, rTemperature = 0,
     rHumidity = 0\<rparr>"

section \<open>Theorems\<close>

subsection \<open>Ballistic solver\<close>

text \<open>
  C1. For every environment with a positive distance and every turret setting,
  \<open>calculateImpact\<close> returns exactly the offsets of the specification's algorithm:
  \<open>y = - actualDrop + elevation * milCm\<close> and \<open>x = - windDrift + windage * milCm\<close>, with
  the time of flight, drop, density factor, crosswind, drift and MIL size as the
  specification gives them.
\<close>

theorem calculateImpact_refines_spec:
  assumes "0 < distance e"
  shows "calculateImpact e tu = spec_impact e tu"
  unfolding calculateImpact_def spec_impact_def spec_windDrift_def spec_crosswind_def
    spec_actualDrop_def spec_tof_def spec_milCm_def cos_deg_def MUZZLE_VELOCITY_def
    STANDARD_TEMP_def Let_def
  by (simp add: field_simps)

theorem calculateImpact_refines_spec_witness:
  "0 < distance \<lparr>windSpeed = 4, windDirection = 90, temperature = 20, humidity = 50,
       distance = 100\<rparr>
   \<and> calculateImpact
       \<lparr>windSpeed = 4, windDirection = 90, temperature = 20, humidity = 50, distance = 100\<rparr>
       \<lparr>elevation = 1, windage = 1\<rparr>
     = spec_impact
       \<lparr>windSpeed = 4, windDirection = 90, temperature = 20, humidity = 50, distance = 100\<rparr>
       \<lparr>elevation = 1, windage = 1\<rparr>
   \<and> spec_impact
       \<lparr>windSpeed = 4, windDirection = 90, temperature = 20, humidity = 50, distance = 100\<rparr>
       \<lparr>elevation = 1, windage = 1\<rparr>
     = \<lparr>xCm = 47 / 5, yCm = 629645 / 305762\<rparr>"
proof -
  have v: "spec_impact
       \<lparr>windSpeed = 4, windDirection = 90, temperature = 20, humidity = 50, distance = 100\<rparr>
       \<lparr>elevation = 1, windage = 1\<rparr>
     = \<lparr>xCm = 47 / 5, yCm = 629645 / 305762\<rparr>"
    by (simp add: spec_impact_def spec_windDrift_def spec_crosswind_def spec_actualDrop_def
        spec_tof_def spec_milCm_def cos_deg_def power2_eq_square)
  show ?thesis
    using calculateImpact_refines_spec
      [of "\<lparr>windSpeed = 4, windDirection = 90, temperature = 20, humidity = 50,
             distance = 100\<rparr>"
          "\<lparr>elevation = 1, windage = 1\<rparr>"] v
    by simp
qed

subsection \<open>Auxiliary facts about firing\<close>

lemma fireShot_aiming:
  assumes "status s = AIMING"
  shows "fireShot now s =
    (let p = calculateImpact (env s) (turrets s);
         n = sqrt (xCm p * xCm p + yCm p * yCm p);
         h = n < 22.5;
         rc = (if h then max 5 (10 - \<lfloor>n / 3.75\<rfloor>) else 0)
     in s\<lparr>masteryScore :=
            (if h then (if rc = 10 then masteryScore s + 2
                        else if rc \<ge> 7 then masteryScore s + 1
                        else max 0 (masteryScore s - 1))
             else 0),
          lastShot := Some \<lparr>hit = h, score = (if h then rc * 10 else 0), rings = rc,
            dropError = yCm p, windError = xCm p, timestamp = now\<rparr>,
          status := RESULT\<rparr>)"
  using assms
  by (simp add: fireShot_def TARGET_SIZE_CM_def Let_def max_def)

lemma ring_bounds:
  assumes "0 \<le> n" "n < 22.5"
  shows "5 \<le> 10 - \<lfloor>(n::real) / 3.75\<rfloor>" "10 - \<lfloor>n / 3.75\<rfloor> \<le> 10"
proof -
  have "n / 3.75 < 6" using assms by simp
  then have "\<lfloor>n / 3.75\<rfloor> < 6" by linarith
  then show "5 \<le> 10 - \<lfloor>n / 3.75\<rfloor>" by simp
  have "0 \<le> n / 3.75" using assms by simp
  then have "0 \<le> \<lfloor>n / 3.75\<rfloor>" by simp
  then show "10 - \<lfloor>n / 3.75\<rfloor> \<le> 10" by simp
qed

lemma norm_lt_iff:
  assumes "0 < c"
  shows "sqrt (a * a + b * b) < c \<longleftrightarrow> a\<^sup>2 + b\<^sup>2 < c\<^sup>2"
proof -
  have "sqrt (a * a + b * b) < c \<longleftrightarrow> sqrt (a\<^sup>2 + b\<^sup>2) < sqrt (c\<^sup>2)"
    using assms by (simp add: power2_eq_square)
  also have "\<dots> \<longleftrightarrow> a\<^sup>2 + b\<^sup>2 < c\<^sup>2"
    by (rule real_sqrt_less_iff)
  finally show ?thesis .
qed

lemma fireShot_ten_ring:
  assumes "status s = AIMING"
    and "(xCm (calculateImpact (env s) (turrets s)))\<^sup>2 
         + (yCm (calculateImpact (env s) (turrets s)))\<^sup>2 < 14.0625"
  shows "fireShot now s =
     s\<lparr>masteryScore := masteryScore s + 2,
       lastShot := Some \<lparr>hit = True, score = 100, rings = 10,
         dropError = yCm (calculateImpact (env s) (turrets s)),
         windError = xCm (calculateImpact (env s) (turrets s)), timestamp = now\<rparr>,
       status := RESULT\<rparr>"
proof -
  define p where "p = calculateImpact (env s) (turrets s)"
  define n where "n = sqrt (xCm p * xCm p + yCm p * yCm p)"
  have n0: "0 \<le> n" by (simp add: n_def)
  have "n < 3.75"
    using assms(2) norm_lt_iff [of "3.75" "xCm p" "yCm p"]
    by (simp add: n_def p_def power2_eq_square)
  then have n1: "n / 3.75 < 1" and n2: "n < 22.5" by simp_all
  have "0 \<le> n / 3.75" using n0 by simp
  with n1 have "\<lfloor>n / 3.75\<rfloor> = 0" by linarith
  then show ?thesis
    using n2 fireShot_aiming [OF assms(1), of now]
    by (simp add: Let_def p_def [symmetric] n_def [symmetric])
qed

lemma fireShot_miss:
  assumes "status s = AIMING"
    and "506.25 \<le> (xCm (calculateImpact (env s) (turrets s)))\<^sup>2 
         + (yCm (calculateImpact (env s) (turrets s)))\<^sup>2"
  shows "fireShot now s =
     s\<lparr>masteryScore := 0,
       lastShot := Some \<lparr>hit = False, score = 0, rings = 0,
         dropError = yCm (calculateImpact (env s) (turrets s)),
         windError = xCm (calculateImpact (env s) (turrets s)), timestamp = now\<rparr>,
       status := RESULT\<rparr>"
proof -
  define p where "p = calculateImpact (env s) (turrets s)"
  define n where "n = sqrt (xCm p * xCm p + yCm p * yCm p)"
  have "\<not> n < 22.5"
    using assms(2) norm_lt_iff [of "22.5" "xCm p" "yCm p"]
    by (simp add: n_def p_def power2_eq_square)
  then show ?thesis
    using fireShot_aiming [OF assms(1), of now]
    by (simp add: Let_def p_def [symmetric] n_def [symmetric])
qed

lemma impact_zero_wind:
  "calculateImpact \<lparr>windSpeed = 0, windDirection = wd, temperature = 15, humidity = hu,
        distance = 300\<rparr> \<lparr>elevation = el, windage = wi\<rparr>
   = \<lparr>xCm = wi * 30, yCm = el * 30 - 11036250 / 152881\<rparr>"
  by (simp add: calculateImpact_def MUZZLE_VELOCITY_def STANDARD_TEMP_def Let_def
      power2_eq_square)

lemma zeroed_impact:
  "calculateImpact (env zeroedSession) (turrets zeroedSession)
   = \<lparr>xCm = 0, yCm = - (28818 / 152881)\<rparr>"
  by (simp add: zeroedSession_def initialSession_def impact_zero_wind)

lemma fireShot_mastery_aux:
  assumes "status s = AIMING"
  shows "\<exists>r. lastShot (fireShot now s) = Some r
    \<and> masteryScore (fireShot now s) = spec_masteryUpdate (hit r) (rings r) (masteryScore s)"
proof -
  define p where "p = calculateImpact (env s) (turrets s)"
  define n where "n = sqrt (xCm p * xCm p + yCm p * yCm p)"
  have n0: "0 \<le> n" by (simp add: n_def)
  obtain k where k: "\<lfloor>n / 3.75\<rfloor> = k" by simp
  show ?thesis
  proof (cases "n < 22.5")
    case True
    have kb: "0 \<le> k" "k \<le> 5"
      using ring_bounds [OF n0 True] unfolding k by linarith+
    show ?thesis
      using True k kb fireShot_aiming [OF assms, of now]
      by (simp add: Let_def p_def [symmetric] n_def [symmetric] spec_masteryUpdate_def)
  next
    case False
    then show ?thesis
      using fireShot_aiming [OF assms, of now]
      by (simp add: Let_def p_def [symmetric] n_def [symmetric] spec_masteryUpdate_def)
  qed
qed

lemma retry_then_dial:
  "status ((handleRetry s)\<lparr>turrets := tu\<rparr>) = AIMING"
  "masteryScore ((handleRetry s)\<lparr>turrets := tu\<rparr>) = masteryScore (s::Session)"
  by (simp_all add: handleRetry_def)

lemma zeroed_fire:
  assumes "status s = AIMING" "env s = env zeroedSession" "turrets s = turrets zeroedSession"
  shows "fireShot now s =
     s\<lparr>masteryScore := masteryScore s + 2,
       lastShot := Some \<lparr>hit = True, score = 100, rings = 10,
         dropError = - (28818 / 152881), windError = 0, timestamp = now\<rparr>,
       status := RESULT\<rparr>"
  using fireShot_ten_ring [OF assms(1), of now]
  by (simp add: assms(2,3) zeroed_impact power2_eq_square)

lemma off_target_fire:
  assumes "status s = AIMING" "env s = env zeroedSession"
    "turrets s = \<lparr>elevation = 2.4, windage = 1\<rparr>"
  shows "fireShot now s =
     s\<lparr>masteryScore := 0,
       lastShot := Some \<lparr>hit = False, score = 0, rings = 0,
         dropError = - (28818 / 152881), windError = 30, timestamp = now\<rparr>,
       status := RESULT\<rparr>"
  using fireShot_miss [OF assms(1), of now]
  by (simp add: assms(2,3) zeroedSession_def initialSession_def impact_zero_wind
      power2_eq_square)

lemma dial_windage_one:
  "turrets s = turrets zeroedSession \<Longrightarrow>
   adjust Windage 1 s = s\<lparr>turrets := \<lparr>elevation = 2.4, windage = 1\<rparr>\<rparr>"
  by (simp add: adjust_def toFixed_def zeroedSession_def initialSession_def)

subsection \<open>Scoring\<close>

text \<open>
  C2. Scoring with the target diameter of 45 cm: for a shot fired while aiming at the impact
  point \<open>(a, b)\<close>, the result is a hit if and only if the Euclidean norm of \<open>(a, b)\<close> is
  strictly below 22.5, so a norm of exactly 22.5 is a miss; on a hit the rings are
  \<open>10 - floor (norm / 3.75)\<close> clamped below at 5, hence at least 5, and on a miss they are 0.
\<close>

theorem fireShot_scoring:
  assumes "status s = AIMING"
    and "calculateImpact (env s) (turrets s) = \<lparr>xCm = a, yCm = b\<rparr>"
  shows "\<exists>r. lastShot (fireShot now s) = Some r
    \<and> (hit r \<longleftrightarrow> sqrt (a\<^sup>2 + b\<^sup>2) < 22.5)
    \<and> rings r = (if sqrt (a\<^sup>2 + b\<^sup>2) < 22.5
                 then max 5 (10 - \<lfloor>sqrt (a\<^sup>2 + b\<^sup>2) / 3.75\<rfloor>) else 0)
    \<and> (if hit r then 5 \<le> rings r \<and> rings r = 10 - \<lfloor>sqrt (a\<^sup>2 + b\<^sup>2) / 3.75\<rfloor>
        else rings r = 0)
    \<and> (sqrt (a\<^sup>2 + b\<^sup>2) = 22.5 \<longrightarrow> \<not> hit r \<and> rings r = 0)"
proof -
  define n where "n = sqrt (a\<^sup>2 + b\<^sup>2)"
  have n0: "0 \<le> n" by (simp add: n_def)
  have n': "sqrt (a * a + b * b) = n" by (simp add: n_def power2_eq_square)
  have fs: "fireShot now s = s\<lparr>masteryScore :=
            (if n < 22.5 then (if max 5 (10 - \<lfloor>n / 3.75\<rfloor>) = 10 then masteryScore s + 2
                        else if max 5 (10 - \<lfloor>n / 3.75\<rfloor>) \<ge> 7 then masteryScore s + 1
                        else max 0 (masteryScore s - 1))
             else 0),
          lastShot := Some \<lparr>hit = n < 22.5,
            score = (if n < 22.5 then max 5 (10 - \<lfloor>n / 3.75\<rfloor>) * 10 else 0),
            rings = (if n < 22.5 then max 5 (10 - \<lfloor>n / 3.75\<rfloor>) else 0),
            dropError = b, windError = a, timestamp = now\<rparr>,
          status := RESULT\<rparr>"
    using fireShot_aiming [OF assms(1), of now] by (simp add: assms(2) n' Let_def)
  show ?thesis
    unfolding n_def [symmetric]
    using ring_bounds [OF n0] by (simp add: fs)
qed


theorem fireShot_scoring_witness:
  "status zeroedSession = AIMING
   \<and> calculateImpact (env zeroedSession) (turrets zeroedSession)
       = \<lparr>xCm = 0, yCm = - (28818 / 152881)\<rparr>
   \<and> (\<exists>r. lastShot (fireShot 0 zeroedSession) = Some r \<and> hit r \<and> 5 \<le> rings r)
   \<and> status boundarySession = AIMING
   \<and> calculateImpact (env boundarySession) (turrets boundarySession)
       = \<lparr>xCm = 22.5, yCm = 0\<rparr>
   \<and> sqrt ((22.5)\<^sup>2 + 0\<^sup>2) = (22.5 :: real)
   \<and> (\<exists>r. lastShot (fireShot 0 boundarySession) = Some r \<and> \<not> hit r \<and> rings r = 0)"
proof -
  have st: "status zeroedSession = AIMING"
    by (simp add: zeroedSession_def initialSession_def)
  have stb: "status boundarySession = AIMING"
    by (simp add: boundarySession_def zeroedSession_def initialSession_def)
  have ib: "calculateImpact (env boundarySession) (turrets boundarySession)
       = \<lparr>xCm = 22.5, yCm = 0\<rparr>"
    by (simp add: boundarySession_def zeroedSession_def initialSession_def impact_zero_wind)
  have n1: "sqrt (0\<^sup>2 + (- (28818 / 152881 :: real))\<^sup>2) < 22.5"
    by (simp add: real_sqrt_divide)
  have n2: "sqrt ((22.5)\<^sup>2 + 0\<^sup>2) = (22.5 :: real)"
    by simp
  have a: "\<exists>r. lastShot (fireShot 0 zeroedSession) = Some r \<and> hit r \<and> 5 \<le> rings r"
    using fireShot_scoring [OF st zeroed_impact, of 0] n1 by auto
  have b: "\<exists>r. lastShot (fireShot 0 boundarySession) = Some r \<and> \<not> hit r \<and> rings r = 0"
    using fireShot_scoring [OF stb ib, of 0] n2 by auto
  show ?thesis
    using st stb ib n2 a b zeroed_impact by blast
qed

text \<open>
  Every point of the plane is the impact of some environment with a positive distance and
  some turret setting, so the scoring rule above covers every impact point.
\<close>

lemma every_point_is_an_impact:
  "\<exists>e tu. 0 < distance e \<and> calculateImpact e tu = \<lparr>xCm = a, yCm = b\<rparr>"
proof -
  have "calculateImpact \<lparr>windSpeed = 0, windDirection = 0, temperature = 15, humidity = 50,
        distance = 300\<rparr> \<lparr>elevation = (b + 11036250 / 152881) / 30, windage = a / 30\<rparr>
      = \<lparr>xCm = a, yCm = b\<rparr>"
    by (simp add: impact_zero_wind field_simps)
  moreover have "0 < distance \<lparr>windSpeed = 0, windDirection = 0, temperature = 15,
        humidity = 50, distance = 300\<rparr>"
    by simp
  ultimately show ?thesis by blast
qed

subsection \<open>Mastery\<close>

text \<open>
  C4. After every shot fired while aiming, the mastery counter is the old one updated by
  the policy: 10 rings add 2, rings in \<open>[7, 10)\<close> add 1, a hit below 7 rings subtracts 1 but
  not below 0, a miss resets to 0. Consequently, from mastery 0, three consecutive 10-ring
  shots (each after a retry, with any dial setting) give mastery 6, and a following miss
  gives 0.
\<close>

theorem fireShot_mastery:
  assumes "status s = AIMING"
  shows "\<exists>r. lastShot (fireShot now s) = Some r
    \<and> masteryScore (fireShot now s) = spec_masteryUpdate (hit r) (rings r) (masteryScore s)
    \<and> (let s1 = fireShot now s;
            s2 = fireShot n2 ((handleRetry s1)\<lparr>turrets := t2\<rparr>);
            s3 = fireShot n3 ((handleRetry s2)\<lparr>turrets := t3\<rparr>);
            s4 = fireShot n4 ((handleRetry s3)\<lparr>turrets := t4\<rparr>)
        in masteryScore s = 0
              \<and> map_option rings (lastShot s1) = Some 10
              \<and> map_option rings (lastShot s2) = Some 10
              \<and> map_option rings (lastShot s3) = Some 10
              \<and> map_option hit (lastShot s4) = Some False
           \<longrightarrow> masteryScore s3 = 6 \<and> masteryScore s4 = 0)"
proof -
  define s1 where "s1 = fireShot now s"
  define s2 where "s2 = fireShot n2 ((handleRetry s1)\<lparr>turrets := t2\<rparr>)"
  define s3 where "s3 = fireShot n3 ((handleRetry s2)\<lparr>turrets := t3\<rparr>)"
  define s4 where "s4 = fireShot n4 ((handleRetry s3)\<lparr>turrets := t4\<rparr>)"
  obtain r1 where r1: "lastShot s1 = Some r1"
      "masteryScore s1 = spec_masteryUpdate (hit r1) (rings r1) (masteryScore s)"
    using fireShot_mastery_aux [OF assms, of now] by (auto simp: s1_def)
  obtain r2 where r2: "lastShot s2 = Some r2"
      "masteryScore s2 = spec_masteryUpdate (hit r2) (rings r2) (masteryScore s1)"
    using fireShot_mastery_aux [of "(handleRetry s1)\<lparr>turrets := t2\<rparr>" n2]
    by (auto simp: s2_def retry_then_dial)
  obtain r3 where r3: "lastShot s3 = Some r3"
      "masteryScore s3 = spec_masteryUpdate (hit r3) (rings r3) (masteryScore s2)"
    using fireShot_mastery_aux [of "(handleRetry s2)\<lparr>turrets := t3\<rparr>" n3]
    by (auto simp: s3_def retry_then_dial)
  obtain r4 where r4: "lastShot s4 = Some r4"
      "masteryScore s4 = spec_masteryUpdate (hit r4) (rings r4) (masteryScore s3)"
    using fireShot_mastery_aux [of "(handleRetry s3)\<lparr>turrets := t4\<rparr>" n4]
    by (auto simp: s4_def retry_then_dial)
  have seq: "masteryScore s = 0 \<Longrightarrow> rings r1 = 10 \<Longrightarrow> rings r2 = 10 \<Longrightarrow> rings r3 = 10
      \<Longrightarrow> \<not> hit r4 \<Longrightarrow> hit r1 \<Longrightarrow> hit r2 \<Longrightarrow> hit r3
      \<Longrightarrow> masteryScore s3 = 6 \<and> masteryScore s4 = 0"
    by (simp add: r1 r2 r3 r4 spec_masteryUpdate_def)
  have hits: "status q = AIMING \<Longrightarrow> lastShot (fireShot n q) = Some r \<Longrightarrow> rings r = 10 \<Longrightarrow> hit r"
    for n q r
    by (auto simp: fireShot_def Let_def split: if_splits)
  have h1: "rings r1 = 10 \<Longrightarrow> hit r1" using hits [where q = s and n = now and r = r1] assms r1(1) by (simp add: s1_def)
  have h2: "rings r2 = 10 \<Longrightarrow> hit r2"
    using hits [where q = "(handleRetry s1)\<lparr>turrets := t2\<rparr>" and n = n2 and r = r2] r2(1)
    by (simp add: s2_def retry_then_dial)
  have h3: "rings r3 = 10 \<Longrightarrow> hit r3"
    using hits [where q = "(handleRetry s2)\<lparr>turrets := t3\<rparr>" and n = n3 and r = r3] r3(1)
    by (simp add: s3_def retry_then_dial)
  show ?thesis
    using r1 r2 r3 r4 seq h1 h2 h3
    unfolding Let_def s1_def [symmetric] s2_def [symmetric] s3_def [symmetric] s4_def [symmetric]
    by auto
qed


theorem fireShot_mastery_witness:
  "status zeroedSession = AIMING \<and> masteryScore zeroedSession = 0
   \<and> (let s1 = fireShot 1 zeroedSession;
           s2 = fireShot 2 (handleRetry s1);
           s3 = fireShot 3 (handleRetry s2);
           s4 = fireShot 4 (adjust Windage 1 (handleRetry s3))
       in map_option rings (lastShot s1) = Some 10
          \<and> map_option rings (lastShot s2) = Some 10
          \<and> map_option rings (lastShot s3) = Some 10
          \<and> map_option hit (lastShot s4) = Some False
          \<and> masteryScore s3 = 6 \<and> masteryScore s4 = 0)"
proof -
  define s1 where "s1 = fireShot 1 zeroedSession"
  define s2 where "s2 = fireShot 2 (handleRetry s1)"
  define s3 where "s3 = fireShot 3 (handleRetry s2)"
  define s4 where "s4 = fireShot 4 (adjust Windage 1 (handleRetry s3))"
  have st: "status zeroedSession = AIMING" and m0: "masteryScore zeroedSession = 0"
    by (simp_all add: zeroedSession_def initialSession_def)
  have e1: "s1 = zeroedSession\<lparr>masteryScore := masteryScore zeroedSession + 2,
       lastShot := Some \<lparr>hit = True, score = 100, rings = 10,
         dropError = - (28818 / 152881), windError = 0, timestamp = 1\<rparr>,
       status := RESULT\<rparr>"
    unfolding s1_def by (rule zeroed_fire [OF st refl refl])
  have f1: "env s1 = env zeroedSession" "turrets s1 = turrets zeroedSession"
    "map_option rings (lastShot s1) = Some 10"
    by (simp_all add: e1)
  have e2: "s2 = (handleRetry s1)\<lparr>masteryScore := masteryScore (handleRetry s1) + 2,
       lastShot := Some \<lparr>hit = True, score = 100, rings = 10,
         dropError = - (28818 / 152881), windError = 0, timestamp = 2\<rparr>,
       status := RESULT\<rparr>"
    unfolding s2_def by (rule zeroed_fire) (simp_all add: handleRetry_def f1)
  have f2: "env s2 = env zeroedSession" "turrets s2 = turrets zeroedSession"
    "map_option rings (lastShot s2) = Some 10"
    by (simp_all add: e2 handleRetry_def f1)
  have e3: "s3 = (handleRetry s2)\<lparr>masteryScore := masteryScore (handleRetry s2) + 2,
       lastShot := Some \<lparr>hit = True, score = 100, rings = 10,
         dropError = - (28818 / 152881), windError = 0, timestamp = 3\<rparr>,
       status := RESULT\<rparr>"
    unfolding s3_def by (rule zeroed_fire) (simp_all add: handleRetry_def f2)
  have f3: "env s3 = env zeroedSession" "turrets s3 = turrets zeroedSession"
    "map_option rings (lastShot s3) = Some 10"
    by (simp_all add: e3 handleRetry_def f2)
  have d4: "adjust Windage 1 (handleRetry s3)
      = (handleRetry s3)\<lparr>turrets := \<lparr>elevation = 2.4, windage = 1\<rparr>\<rparr>"
    by (rule dial_windage_one) (simp add: handleRetry_def f3)
  have f4: "map_option hit (lastShot s4) = Some False"
    unfolding s4_def d4
    by (subst off_target_fire) (simp_all add: handleRetry_def f3)
  have r12: "(handleRetry s1)\<lparr>turrets := turrets zeroedSession\<rparr> = handleRetry s1"
    "(handleRetry s2)\<lparr>turrets := turrets zeroedSession\<rparr> = handleRetry s2"
    using f1(2) f2(2) by (simp_all add: handleRetry_def)
  have "masteryScore s3 = 6 \<and> masteryScore s4 = 0"
    using fireShot_mastery [OF st, of 1 2 "turrets zeroedSession" 3 "turrets zeroedSession"
        4 "\<lparr>elevation = 2.4, windage = 1\<rparr>"] m0 f1(3) f2(3) f3(3) f4
    unfolding Let_def r12 s1_def [symmetric] s2_def [symmetric] s3_def [symmetric]
      d4 [symmetric] s4_def [symmetric]
    by blast
  then show ?thesis
    using st m0 f1(3) f2(3) f3(3) f4
    unfolding Let_def s1_def [symmetric] s2_def [symmetric] s3_def [symmetric]
      s4_def [symmetric]
    by simp
qed

subsection \<open>Session state machine\<close>

text \<open>
  C9. When retry is invoked in the RESULT state, the last shot result is cleared and the
  status becomes AIMING, while the environment, the turret state, the mastery score, the
  game mode and the level index remain unchanged.
\<close>

theorem handleRetry_from_result:
  assumes "status s = RESULT"
  shows "lastShot (handleRetry s) = None \<and> status (handleRetry s) = AIMING
    \<and> env (handleRetry s) = env s \<and> turrets (handleRetry s) = turrets s
    \<and> masteryScore (handleRetry s) = masteryScore s
    \<and> gameMode (handleRetry s) = gameMode s
    \<and> currentLevelIndex (handleRetry s) = currentLevelIndex s"
  by (simp add: handleRetry_def)

theorem handleRetry_from_result_witness:
  "status (fireShot 0 zeroedSession) = RESULT
   \<and> lastShot (fireShot 0 zeroedSession) \<noteq> None
   \<and> lastShot (handleRetry (fireShot 0 zeroedSession)) = None
   \<and> status (handleRetry (fireShot 0 zeroedSession)) = AIMING
   \<and> env (handleRetry (fireShot 0 zeroedSession)) = env zeroedSession
   \<and> turrets (handleRetry (fireShot 0 zeroedSession)) = turrets zeroedSession
   \<and> masteryScore (handleRetry (fireShot 0 zeroedSession)) = 2"
proof -
  have st: "status zeroedSession = AIMING"
    by (simp add: zeroedSession_def initialSession_def)
  have fs: "fireShot 0 zeroedSession = zeroedSession\<lparr>masteryScore := masteryScore zeroedSession + 2,
       lastShot := Some \<lparr>hit = True, score = 100, rings = 10,
         dropError = - (28818 / 152881), windError = 0, timestamp = 0\<rparr>,
       status := RESULT\<rparr>"
    by (rule zeroed_fire [OF st refl refl])
  have res: "status (fireShot 0 zeroedSession) = RESULT"
    by (simp add: fs)
  have m0: "masteryScore zeroedSession = 0"
    by (simp add: zeroedSession_def initialSession_def)
  have e: "env (fireShot 0 zeroedSession) = env zeroedSession"
    "turrets (fireShot 0 zeroedSession) = turrets zeroedSession"
    "masteryScore (fireShot 0 zeroedSession) = 2"
    "lastShot (fireShot 0 zeroedSession) \<noteq> None"
    by (simp_all add: fs m0)
  show ?thesis
    using handleRetry_from_result [OF res] res e by simp
qed

text \<open>
  C10. The retry handler checks no state: invoked in any state, MENU and BRIEFING included,
  it sets the status to AIMING and clears the last shot result, and leaves the environment,
  the turrets, the mastery score, the mode and the level index unchanged.
\<close>

theorem handleRetry_unguarded:
  "handleRetry s = s\<lparr>lastShot := None, status := AIMING\<rparr>
   \<and> status (handleRetry (s\<lparr>status := MENU\<rparr>)) = AIMING
   \<and> status (handleRetry (s\<lparr>status := BRIEFING\<rparr>)) = AIMING
   \<and> status (handleRetry s) = AIMING \<and> lastShot (handleRetry s) = None
   \<and> env (handleRetry s) = env s \<and> turrets (handleRetry s) = turrets s
   \<and> masteryScore (handleRetry s) = masteryScore s
   \<and> gameMode (handleRetry s) = gameMode s
   \<and> currentLevelIndex (handleRetry s) = currentLevelIndex s"
  by (simp add: handleRetry_def)

text \<open>
  C3, as stated, fails: on the result screen of the last campaign level no next level
  exists, and \<open>handleNextLevel\<close> does not leave the session unchanged, it sets the status
  to MENU.
\<close>

theorem handleNextLevel_past_last_counterexample:
  "\<not> currentLevelIndex lastCampaignResult + 1 < length (levelsOf (gameMode lastCampaignResult))
   \<and> handleNextLevel noDraws lastCampaignResult \<noteq> Inr lastCampaignResult
   \<and> handleNextLevel noDraws lastCampaignResult = Inr (lastCampaignResult\<lparr>status := MENU\<rparr>)
   \<and> status lastCampaignResult = RESULT"
  by (simp add: handleNextLevel_def levelsOf_def CAMPAIGN_LEVELS_def lastCampaignResult_def
      initialSession_def)

text \<open>
  C3, amended. Firing while the status is not AIMING changes nothing, and so does stepping
  back from level index 0; invoking \<open>handleNextLevel\<close> when no next level exists sets the
  status to MENU and leaves the rest of the session (environment, turrets, last shot,
  mastery, mode, level index) unchanged. No handler raises an error on these inputs.
\<close>

theorem invalid_invocations:
  "(status s \<noteq> AIMING \<longrightarrow> fireShot now s = s)
   \<and> (\<not> currentLevelIndex s + 1 < length (levelsOf (gameMode s)) \<longrightarrow>
        handleNextLevel r s = Inr (s\<lparr>status := MENU\<rparr>))
   \<and> (currentLevelIndex s = 0 \<longrightarrow> handlePrevLevel r s = Inr s)"
  by (simp add: fireShot_def handleNextLevel_def handlePrevLevel_def)

theorem invalid_invocations_witness:
  "status lastCampaignResult \<noteq> AIMING
   \<and> fireShot 0 lastCampaignResult = lastCampaignResult
   \<and> \<not> currentLevelIndex lastCampaignResult + 1 < length (levelsOf (gameMode lastCampaignResult))
   \<and> handleNextLevel noDraws lastCampaignResult = Inr (lastCampaignResult\<lparr>status := MENU\<rparr>)
   \<and> currentLevelIndex initialSession = 0
   \<and> handlePrevLevel noDraws initialSession = Inr initialSession"
proof -
  have a: "status lastCampaignResult \<noteq> AIMING"
    by (simp add: lastCampaignResult_def initialSession_def)
  have b: "\<not> currentLevelIndex lastCampaignResult + 1
      < length (levelsOf (gameMode lastCampaignResult))"
    by (simp add: lastCampaignResult_def initialSession_def levelsOf_def CAMPAIGN_LEVELS_def)
  have c: "currentLevelIndex initialSession = 0"
    by (simp add: initialSession_def)
  show ?thesis
    using a b c invalid_invocations [of lastCampaignResult 0 noDraws]
      invalid_invocations [of initialSession 0 noDraws]
    by blast
qed


subsection \<open>Zero wind\<close>

text \<open>
  C5, as stated, fails: two inputs with wind speed 0 and the same windage 1, at 100 m and at
  200 m, have the horizontal offsets 10 cm and 20 cm.
\<close>

theorem zero_wind_x_counterexample:
  "windSpeed \<lparr>windSpeed = 0, windDirection = 0, temperature = 15, humidity = 50,
       distance = 100\<rparr> = 0
   \<and> windSpeed \<lparr>windSpeed = 0, windDirection = 0, temperature = 15, humidity = 50,
       distance = 200\<rparr> = 0
   \<and> xCm (calculateImpact
        \<lparr>windSpeed = 0, windDirection = 0, temperature = 15, humidity = 50, distance = 100\<rparr>
        \<lparr>elevation = 0, windage = 1\<rparr>) = 10
   \<and> xCm (calculateImpact
        \<lparr>windSpeed = 0, windDirection = 0, temperature = 15, humidity = 50, distance = 200\<rparr>
        \<lparr>elevation = 0, windage = 1\<rparr>) = 20
   \<and> xCm (calculateImpact
        \<lparr>windSpeed = 0, windDirection = 0, temperature = 15, humidity = 50, distance = 100\<rparr>
        \<lparr>elevation = 0, windage = 1\<rparr>)
     \<noteq> xCm (calculateImpact
        \<lparr>windSpeed = 0, windDirection = 0, temperature = 15, humidity = 50, distance = 200\<rparr>
        \<lparr>elevation = 0, windage = 1\<rparr>)"
  by (simp add: calculateImpact_def Let_def)

text \<open>
  C5, amended. For all environments with wind speed 0 and a positive distance, the
  horizontal offset returned by \<open>calculateImpact\<close> is the windage dial times the size of
  one MIL at the distance, \<open>windage * 10 * (distance / 100)\<close>: it depends only on the
  windage and the distance, so any two zero-wind inputs with the same windage and the same
  distance have the same \<open>x\<close>, whatever the temperature, wind direction, humidity and
  elevation.
\<close>

theorem zero_wind_x:
  assumes "windSpeed e1 = 0" "windSpeed e2 = 0"
    and "0 < distance e1" "distance e2 = distance e1"
    and "windage t2 = windage t1"
  shows "xCm (calculateImpact e1 t1) = windage t1 * (10 * (distance e1 / 100))
    \<and> xCm (calculateImpact e2 t2) = xCm (calculateImpact e1 t1)"
  using assms by (simp add: calculateImpact_def Let_def)

theorem zero_wind_x_witness:
  "windSpeed \<lparr>windSpeed = 0, windDirection = 0, temperature = 15, humidity = 50,
       distance = 300\<rparr> = 0
   \<and> windSpeed \<lparr>windSpeed = 0, windDirection = 270, temperature = 35, humidity = 20,
       distance = 300\<rparr> = 0
   \<and> 0 < distance \<lparr>windSpeed = 0, windDirection = 0, temperature = 15, humidity = 50,
       distance = 300\<rparr>
   \<and> distance \<lparr>windSpeed = 0, windDirection = 270, temperature = 35, humidity = 20,
       distance = 300\<rparr>
     = distance \<lparr>windSpeed = 0, windDirection = 0, temperature = 15, humidity = 50,
       distance = 300\<rparr>
   \<and> windage \<lparr>elevation = 5, windage = 0.5\<rparr> = windage \<lparr>elevation = 2.4, windage = 0.5\<rparr>
   \<and> xCm (calculateImpact
        \<lparr>windSpeed = 0, windDirection = 0, temperature = 15, humidity = 50, distance = 300\<rparr>
        \<lparr>elevation = 2.4, windage = 0.5\<rparr>) = 15
   \<and> xCm (calculateImpact
        \<lparr>windSpeed = 0, windDirection = 270, temperature = 35, humidity = 20, distance = 300\<rparr>
        \<lparr>elevation = 5, windage = 0.5\<rparr>) = 15"
  using zero_wind_x
    [of "\<lparr>windSpeed = 0, windDirection = 0, temperature = 15, humidity = 50, distance = 300\<rparr>"
        "\<lparr>windSpeed = 0, windDirection = 270, temperature = 35, humidity = 20, distance = 300\<rparr>"
        "\<lparr>elevation = 5, windage = 0.5\<rparr>" "\<lparr>elevation = 2.4, windage = 0.5\<rparr>"]
  by simp

subsection \<open>Range card\<close>

lemma range_card_mils:
  "0.5 * 9.81 * (d / (MUZZLE_VELOCITY * 0.92)) ^ 2 * (1 - (temp - STANDARD_TEMP) * 0.002) * 100
     / (d / 10)
   = - yCm (calculateImpact
        \<lparr>windSpeed = 0, windDirection = wd, temperature = temp, humidity = hu, distance = d\<rparr>
        \<lparr>elevation = 0, windage = 0\<rparr>) / (d / 10)"
  by (simp add: calculateImpact_def Let_def)

text \<open>
  C6. \<open>generateRangeCard temp\<close> has entries for exactly the distances 200, 300, ..., 1200,
  in increasing order; each elevation is the solver's drop at that distance and temperature
  (zero wind, zero dials: the negated vertical offset of \<open>calculateImpact\<close>) in cm divided
  by \<open>distance / 10\<close>, rounded to one decimal; and at 15 degrees the elevations are
  non-decreasing with the distance.
\<close>

theorem generateRangeCard_table:
  "map rcDistance (generateRangeCard temp)
     = [200, 300, 400, 500, 600, 700, 800, 900, 1000, 1100, 1200]
   \<and> sorted_wrt (<) (map rcDistance (generateRangeCard temp))
   \<and> generateRangeCard temp
     = map (\<lambda>d. \<lparr>rcDistance = d,
                 rcElevation = toFixed 1
                   (- yCm (calculateImpact
                       \<lparr>windSpeed = 0, windDirection = wd, temperature = temp,
                         humidity = hu, distance = d\<rparr>
                       \<lparr>elevation = 0, windage = 0\<rparr>) / (d / 10))\<rparr>)
         [200, 300, 400, 500, 600, 700, 800, 900, 1000, 1100, 1200]
   \<and> map rcElevation (generateRangeCard 15)
     = [1.6, 2.4, 3.2, 4, 4.8, 5.6, 6.4, 7.2, 8, 8.8, 9.6]
   \<and> sorted (map rcElevation (generateRangeCard 15))"
proof -
  have d: "map rcDistance (generateRangeCard temp)
     = [200, 300, 400, 500, 600, 700, 800, 900, 1000, 1100, 1200]"
    by (simp add: generateRangeCard_def Let_def)
  have e: "map rcElevation (generateRangeCard 15)
     = [1.6, 2.4, 3.2, 4, 4.8, 5.6, 6.4, 7.2, 8, 8.8, 9.6]"
    by (simp add: generateRangeCard_def MUZZLE_VELOCITY_def STANDARD_TEMP_def toFixed_def
        Let_def power2_eq_square)
  have s: "generateRangeCard temp
     = map (\<lambda>d. \<lparr>rcDistance = d,
                 rcElevation = toFixed 1
                   (- yCm (calculateImpact
                       \<lparr>windSpeed = 0, windDirection = wd, temperature = temp,
                         humidity = hu, distance = d\<rparr>
                       \<lparr>elevation = 0, windage = 0\<rparr>) / (d / 10))\<rparr>)
         [200, 300, 400, 500, 600, 700, 800, 900, 1000, 1100, 1200]"
    unfolding generateRangeCard_def Let_def range_card_mils [of _ temp wd hu, symmetric]
    by simp
  show ?thesis
    unfolding e d using s by simp
qed

text \<open>
  C8. At 300 m, without wind, at 15 degrees, with windage 0 and the elevation dial on the
  300 m entry of the range card for 15 degrees (2.4 after rounding to one decimal),
  \<open>calculateImpact\<close> returns \<open>x = 0\<close> and a \<open>y\<close> within the rounding error of the dial
  (0.05 MIL, that is 1.5 cm), below the ring width of 3.75 cm, and firing scores a hit with
  10 rings.
\<close>

theorem range_card_zero_end_to_end:
  "\<exists>en. find (\<lambda>en. rcDistance en = 300) (generateRangeCard 15) = Some en
     \<and> rcElevation en = 2.4
     \<and> xCm (calculateImpact
          \<lparr>windSpeed = 0, windDirection = wd, temperature = 15, humidity = hu,
            distance = 300\<rparr>
          \<lparr>elevation = rcElevation en, windage = 0\<rparr>) = 0
     \<and> \<bar>yCm (calculateImpact
          \<lparr>windSpeed = 0, windDirection = wd, temperature = 15, humidity = hu,
            distance = 300\<rparr>
          \<lparr>elevation = rcElevation en, windage = 0\<rparr>)\<bar> \<le> 1.5
     \<and> \<bar>yCm (calculateImpact
          \<lparr>windSpeed = 0, windDirection = wd, temperature = 15, humidity = hu,
            distance = 300\<rparr>
          \<lparr>elevation = rcElevation en, windage = 0\<rparr>)\<bar> < 3.75
     \<and> (\<exists>r. lastShot (fireShot now
            (s\<lparr>status := AIMING,
               env := \<lparr>windSpeed = 0, windDirection = wd, temperature = 15, humidity = hu,
                 distance = 300\<rparr>,
               turrets := \<lparr>elevation = rcElevation en, windage = 0\<rparr>\<rparr>)) = Some r
          \<and> hit r \<and> rings r = 10)"
proof -
  have card: "find (\<lambda>en. rcDistance en = 300) (generateRangeCard 15)
     = Some \<lparr>rcDistance = 300, rcElevation = 2.4\<rparr>"
    by (simp add: generateRangeCard_def MUZZLE_VELOCITY_def STANDARD_TEMP_def toFixed_def
        Let_def power2_eq_square)
  have fire: "\<exists>r. lastShot (fireShot now
          (s\<lparr>status := AIMING,
             env := \<lparr>windSpeed = 0, windDirection = wd, temperature = 15, humidity = hu,
               distance = 300\<rparr>,
             turrets := \<lparr>elevation = 2.4, windage = 0\<rparr>\<rparr>)) = Some r
        \<and> hit r \<and> rings r = 10"
    by (subst fireShot_ten_ring) (simp_all add: impact_zero_wind power2_eq_square)
  show ?thesis
    unfolding card using fire by (simp add: impact_zero_wind)
qed

subsection \<open>Instructor feedback\<close>

lemma large_error_opens_section:
  assumes "0 < d" "d \<le> 3000" "15 < \<bar>v\<bar>"
  shows "0.05 < \<bar>- (v / (d / 10))\<bar>" and "0.05 < \<bar>v / (d / 10 :: real)\<bar>"
proof -
  have eq: "\<bar>- (v / (d / 10))\<bar> = \<bar>v\<bar> * 10 / d"
    using assms(1) by (simp add: abs_mult)
  have "0.05 * d < \<bar>v\<bar> * 10" using assms by simp
  then have "0.05 < \<bar>v\<bar> * 10 / d"
    using assms(1) by (simp add: pos_less_divide_eq)
  then show "0.05 < \<bar>- (v / (d / 10))\<bar>" by (simp only: eq)
  then show "0.05 < \<bar>v / (d / 10 :: real)\<bar>" by simp
qed

lemma feedback_sections:
  "list_ex isElevationSection (getInstructorFeedback r e lang)
     \<longleftrightarrow> \<bar>dropError r / (distance e / 10)\<bar> > 0.05"
  "list_ex isWindageSection (getInstructorFeedback r e lang)
     \<longleftrightarrow> \<bar>windError r / (distance e / 10)\<bar> > 0.05"
  by (simp_all add: getInstructorFeedback_def Let_def abs_mult)

lemma feedback_temp_annotation:
  "list_ex isTempAnnotation (getInstructorFeedback r e lang)
     \<longleftrightarrow> \<bar>dropError r / (distance e / 10)\<bar> > 0.05 \<and> \<bar>dropError r\<bar> > 15
        \<and> (temperature e - 15 > 10 \<and> dropError r > 0
           \<or> temperature e - 15 < - 10 \<and> dropError r < 0)"
  by (simp add: getInstructorFeedback_def Let_def abs_mult)

lemma feedback_hot_cold:
  "Text lang (EnvHot (temperature e)) \<in> set (getInstructorFeedback r e lang)
     \<longleftrightarrow> \<bar>dropError r / (distance e / 10)\<bar> > 0.05 \<and> \<bar>dropError r\<bar> > 15
        \<and> temperature e > 25 \<and> dropError r > 0"
  "Text lang (EnvCold (temperature e)) \<in> set (getInstructorFeedback r e lang)
     \<longleftrightarrow> \<bar>dropError r / (distance e / 10)\<bar> > 0.05 \<and> \<bar>dropError r\<bar> > 15
        \<and> temperature e < 5 \<and> dropError r < 0"
  by (auto simp add: getInstructorFeedback_def Let_def abs_mult)

lemma feedback_wind_annotation:
  "list_ex isWindAnnotation (getInstructorFeedback r e lang)
     \<longleftrightarrow> \<bar>windError r / (distance e / 10)\<bar> > 0.05 \<and> windSpeed e > 0"
  by (simp add: getInstructorFeedback_def Let_def abs_mult)

text \<open>
  C7. In the feedback of \<open>getInstructorFeedback\<close> (for a positive distance), the vertical
  section is present exactly when the vertical correction exceeds 0.05 MIL, and its
  environmental-cause annotation is emitted if and only if the section is present, the
  vertical error exceeds 15 cm in magnitude, and the temperature deviates from 15 degrees
  by more than 10 in the direction consistent with the error: the hot annotation above 25
  degrees with a high impact, the cold annotation below 5 degrees with a low impact, none
  otherwise. Up to 3000 m an error above 15 cm always opens the section, so the condition
  on the section can be dropped there. The horizontal section's wind annotation is emitted
  whenever that section is present and the wind speed is positive, with no further check.
\<close>

theorem feedback_annotations:
  assumes "0 < distance e"
  shows
   "(list_ex isElevationSection (getInstructorFeedback r e lang)
       \<longleftrightarrow> \<bar>dropError r / (distance e / 10)\<bar> > 0.05)
    \<and> (list_ex isWindageSection (getInstructorFeedback r e lang)
       \<longleftrightarrow> \<bar>windError r / (distance e / 10)\<bar> > 0.05)
    \<and> (list_ex isTempAnnotation (getInstructorFeedback r e lang)
       \<longleftrightarrow> list_ex isElevationSection (getInstructorFeedback r e lang)
          \<and> \<bar>dropError r\<bar> > 15
          \<and> (temperature e - 15 > 10 \<and> dropError r > 0
             \<or> temperature e - 15 < - 10 \<and> dropError r < 0))
    \<and> (Text lang (EnvHot (temperature e)) \<in> set (getInstructorFeedback r e lang)
       \<longleftrightarrow> list_ex isElevationSection (getInstructorFeedback r e lang)
          \<and> \<bar>dropError r\<bar> > 15 \<and> temperature e > 25 \<and> dropError r > 0)
    \<and> (Text lang (EnvCold (temperature e)) \<in> set (getInstructorFeedback r e lang)
       \<longleftrightarrow> list_ex isElevationSection (getInstructorFeedback r e lang)
          \<and> \<bar>dropError r\<bar> > 15 \<and> temperature e < 5 \<and> dropError r < 0)
    \<and> (list_ex isWindAnnotation (getInstructorFeedback r e lang)
       \<longleftrightarrow> list_ex isWindageSection (getInstructorFeedback r e lang) \<and> windSpeed e > 0)
    \<and> (distance e \<le> 3000 \<longrightarrow>
         (list_ex isTempAnnotation (getInstructorFeedback r e lang)
           \<longleftrightarrow> \<bar>dropError r\<bar> > 15
              \<and> (temperature e - 15 > 10 \<and> dropError r > 0
                 \<or> temperature e - 15 < - 10 \<and> dropError r < 0)))"
proof -
  have near: "distance e \<le> 3000 \<Longrightarrow> \<bar>dropError r\<bar> > 15
      \<Longrightarrow> \<bar>dropError r / (distance e / 10)\<bar> > 0.05"
    using large_error_opens_section(2) [OF assms] by blast
  show ?thesis
    unfolding feedback_sections feedback_temp_annotation feedback_hot_cold
      feedback_wind_annotation
    using near by blast
qed

theorem feedback_annotations_witness:
  "0 < distance \<lparr>windSpeed = 3, windDirection = 90, temperature = 35, humidity = 50,
       distance = 600\<rparr>
   \<and> getInstructorFeedback
        \<lparr>hit = False, score = 0, rings = 0, dropError = 40, windError = - 30, timestamp = 0\<rparr>
        \<lparr>windSpeed = 3, windDirection = 90, temperature = 35, humidity = 50, distance = 600\<rparr>
        en
      = [Text en MissLine, Text en (Formula 600 60),
         Divider, Text en (ElevationError 40 HIGH), Text en (EnvHot 35),
         Text en (Calc 40 60 0.67), Text en (ElevationCorrection DECREASE 0.7),
         Divider, Text en (WindageError 30 LEFT), Text en (EnvWind 3 90),
         Text en (Calc 30 60 0.5), Text en (WindageCorrection RIGHT 0.5)]
   \<and> list_ex isTempAnnotation (getInstructorFeedback
        \<lparr>hit = False, score = 0, rings = 0, dropError = 40, windError = - 30, timestamp = 0\<rparr>
        \<lparr>windSpeed = 3, windDirection = 90, temperature = 35, humidity = 50, distance = 600\<rparr>
        en)
   \<and> list_ex isWindAnnotation (getInstructorFeedback
        \<lparr>hit = False, score = 0, rings = 0, dropError = 40, windError = - 30, timestamp = 0\<rparr>
        \<lparr>windSpeed = 3, windDirection = 90, temperature = 35, humidity = 50, distance = 600\<rparr>
        en)"
proof -
  have fb: "getInstructorFeedback
        \<lparr>hit = False, score = 0, rings = 0, dropError = 40, windError = - 30, timestamp = 0\<rparr>
        \<lparr>windSpeed = 3, windDirection = 90, temperature = 35, humidity = 50, distance = 600\<rparr>
        en
      = [Text en MissLine, Text en (Formula 600 60),
         Divider, Text en (ElevationError 40 HIGH), Text en (EnvHot 35),
         Text en (Calc 40 60 0.67), Text en (ElevationCorrection DECREASE 0.7),
         Divider, Text en (WindageError 30 LEFT), Text en (EnvWind 3 90),
         Text en (Calc 30 60 0.5), Text en (WindageCorrection RIGHT 0.5)]"
    by (simp add: getInstructorFeedback_def toFixed_def Let_def)
  show ?thesis
    using feedback_annotations
      [of "\<lparr>windSpeed = 3, windDirection = 90, temperature = 35, humidity = 50,
             distance = 600\<rparr>"
          "\<lparr>hit = False, score = 0, rings = 0, dropError = 40, windError = - 30,
             timestamp = 0\<rparr>" en]
    unfolding fb by simp
qed

end
